theory Spec2Isabelle
  imports Main
begin

section \<open>Error values\<close>

text \<open>
  Go's \<open>error\<close> is an interface; two error values are equal when they have the same
  dynamic type and the same dynamic value. Each constructor below is one dynamic
  type (or, for the sentinels made by \<open>errors.New\<close>, one pointer), so equality of
  the datatype decides \<open>==\<close> wherever the two sides differ in their constructor.

  \<^item> \<open>ErrMachineExist\<close>, \<open>ErrMachineNotExist\<close>, \<open>ErrCommandNotFound\<close>: the three
    package variables of \<open>vbcmd.go\<close>.
  \<^item> \<open>exec_ErrNotFound\<close>: the variable \<open>exec.ErrNotFound\<close> of os/exec, itself made
    by \<open>errors.New\<close>.
  \<^item> \<open>exec_Error name err\<close>: a \<open>*exec.Error\<close> with its fields \<open>Name\<close> and \<open>Err\<close>.
  \<^item> \<open>exec_ExitError status stderr\<close>: a \<open>*exec.ExitError\<close> with the exit status and
    its field \<open>Stderr\<close>.
  \<^item> \<open>os_error msg\<close>: any other error of the operating system or the library.
\<close>

datatype error =
    ErrMachineExist
  | ErrMachineNotExist
  | ErrCommandNotFound
  | exec_ErrNotFound
  | exec_Error string error
  | exec_ExitError nat string
  | os_error string

text \<open>The type assertion \<open>err.(*exec.Error)\<close>: its second result \<open>ok\<close>.\<close>

fun is_exec_Error :: "error \<Rightarrow> bool" where
  "is_exec_Error (exec_Error name err) = True"
| "is_exec_Error _ = False"

section \<open>The command and the state it lives in\<close>

record command =
  program :: string
  sudoer :: bool
  sudo :: bool

text \<open>
  The mutable state: the package variable \<open>Verbose\<close>, the cells that hold commands
  whose address has been taken (an address is an index into \<open>heap\<close>; a new cell is
  appended), the lines written through \<open>log.Printf\<close>, and what has been written to
  the parent's own standard output and standard error.
\<close>

record world =
  Verbose :: bool
  heap :: "command list"
  logged :: "string list"
  console_out :: string
  console_err :: string

section \<open>The platform: os/exec, os/user and runtime\<close>

datatype writer = os_Stdout | os_Stderr | Buffer

record Cmd =
  Path :: string
  Args :: "string list"
  Stdout :: "writer option"
  Stderr :: "writer option"

text \<open>
  What the operating system does with one process start: the executable is not on
  the search path, the start fails otherwise, or the child runs and exits with a
  status after writing to its standard output and standard error.
\<close>

datatype child = NotFound | StartFails string | Exited nat string string

record User =
  Uid :: string
  Gid :: string
  Username :: string

text \<open>
  The platform is a parameter of every operation: \<open>runtime.GOOS\<close>, the outcome of
  starting a program with an argument vector and a wiring of its two output
  streams, the result of \<open>user.Current()\<close> (a failure carries its message), the two
  results of \<open>GroupIds()\<close>, and how os/exec abridges a long captured standard error.
\<close>

record env =
  GOOS :: string
  spawn :: "string \<Rightarrow> string list \<Rightarrow> writer option \<times> writer option \<Rightarrow> child"
  user_Current :: "string + User"
  GroupIds :: "User \<Rightarrow> string list \<times> string option"
  saver :: "string \<Rightarrow> string"

text \<open>
  \<open>exec.Command(name, arg...)\<close>: \<open>Args\<close> holds the name first; both streams are nil.
  os/exec searches the path for the name already here and, when it finds a file,
  stores that file in \<open>Path\<close>. In this model the search belongs to \<open>spawn\<close>, which is
  given the name: the field \<open>Path\<close> below holds the name as it was passed, which is
  what os/exec leaves in \<open>Path\<close> when the search finds nothing. Nothing is stated
  below about the file a successful search stores there.
\<close>

definition exec_Command :: "string \<Rightarrow> string list \<Rightarrow> Cmd" where
  "exec_Command name arg = \<lparr>Path = name, Args = name # arg, Stdout = None, Stderr = None\<rparr>"

text \<open>
  Where the bytes a child wrote to one stream end up: nowhere for a nil writer, on
  the parent's console for \<open>os.Stdout\<close> and \<open>os.Stderr\<close>, in the buffer otherwise. The
  first result is the buffer's content.
\<close>

fun deliver :: "writer option \<Rightarrow> string \<Rightarrow> world \<Rightarrow> string \<times> world" where
  "deliver None s w = ([], w)"
| "deliver (Some os_Stdout) s w = ([], w\<lparr>console_out := console_out w @ s\<rparr>)"
| "deliver (Some os_Stderr) s w = ([], w\<lparr>console_err := console_err w @ s\<rparr>)"
| "deliver (Some Buffer) s w = (s, w)"

text \<open>
  \<open>(*Cmd).Run\<close>: the error, the content of the buffer behind \<open>Stdout\<close>, the content of
  the buffer behind \<open>Stderr\<close>, and the state. A failed search of the path is the
  \<open>*exec.Error\<close> that \<open>LookPath\<close> built around \<open>exec.ErrNotFound\<close>; a non-zero exit is a
  \<open>*exec.ExitError\<close> whose \<open>Stderr\<close> field is empty.
\<close>

definition Cmd_Run :: "env \<Rightarrow> Cmd \<Rightarrow> world \<Rightarrow> error option \<times> string \<times> string \<times> world" where
  "Cmd_Run env c w =
    (case spawn env (Path c) (Args c) (Stdout c, Stderr c) of
       NotFound \<Rightarrow> (Some (exec_Error (Path c) exec_ErrNotFound), [], [], w)
     | StartFails msg \<Rightarrow> (Some (os_error msg), [], [], w)
     | Exited status out err \<Rightarrow>
         (let (bo, w1) = deliver (Stdout c) out w;
              (be, w2) = deliver (Stderr c) err w1
          in (if status = 0 then None else Some (exec_ExitError status []), bo, be, w2)))"

text \<open>
  \<open>(*Cmd).Output\<close>: refuses a command whose \<open>Stdout\<close> is set, captures standard
  output, and, when \<open>Stderr\<close> was nil, captures standard error too and stores it
  (abridged) in the \<open>Stderr\<close> field of an exit error.
\<close>

definition Cmd_Output :: "env \<Rightarrow> Cmd \<Rightarrow> world \<Rightarrow> string \<times> error option \<times> world" where
  "Cmd_Output env c w =
    (if Stdout c \<noteq> None then ([], Some (os_error ''exec: Stdout already set''), w)
     else
       (let captureErr = (Stderr c = None);
            c1 = c\<lparr>Stdout := Some Buffer\<rparr>;
            c2 = (if captureErr then c1\<lparr>Stderr := Some Buffer\<rparr> else c1);
            (err, bo, be, w1) = Cmd_Run env c2 w
        in (bo,
            (case err of
               Some (exec_ExitError status s) \<Rightarrow>
                 if captureErr then Some (exec_ExitError status (saver env be)) else err
             | _ \<Rightarrow> err),
            w1)))"

section \<open>vbcmd.go\<close>

text \<open>
  \<open>isSudoer\<close>. The loop over the group ids returns at the first id equal to
  \<open>"sudo"\<close>.
\<close>

fun has_sudo :: "string list \<Rightarrow> bool" where
  "has_sudo [] = False"
| "has_sudo (groupID # groupIDs) = (if groupID = ''sudo'' then True else has_sudo groupIDs)"

definition isSudoer :: "env \<Rightarrow> bool \<times> error option" where
  "isSudoer env =
    (case user_Current env of
       Inl msg \<Rightarrow> (False, Some (os_error msg))
     | Inr me \<Rightarrow>
         (case GroupIds env me of
            (groupIDs, err) \<Rightarrow>
              if GOOS env = ''linux'' then
                (case err of
                   Some msg \<Rightarrow> (False, Some (os_error msg))
                 | None \<Rightarrow> if has_sudo groupIDs then (True, None) else (False, None))
              else (False, None)))"

text \<open>
  An option is a \<open>func(Command)\<close>. \<open>setOpts\<close> hands every option the address of its
  own receiver, so an option is modelled as a function of that address and the
  state. \<open>sudo\<close> asserts the argument to be a \<open>*command\<close> and assigns the field.
\<close>

type_synonym vb_option = "nat \<Rightarrow> world \<Rightarrow> world"

definition sudo_option :: "bool \<Rightarrow> vb_option" where
  "sudo_option b = (\<lambda>cmd w. w\<lparr>heap := (heap w)[cmd := (heap w ! cmd)\<lparr>sudo := b\<rparr>]\<rparr>)"

fun apply_opts :: "nat \<Rightarrow> vb_option list \<Rightarrow> world \<Rightarrow> world" where
  "apply_opts cmd [] w = w"
| "apply_opts cmd (opt # opts) w = apply_opts cmd opts (opt cmd w)"

text \<open>
  \<open>setOpts\<close> has a value receiver: \<open>vbcmd\<close> is the callee's own copy of the command,
  and \<open>&vbcmd\<close> is the address of that copy, a new cell.
\<close>

definition setOpts :: "command \<Rightarrow> vb_option list \<Rightarrow> world \<Rightarrow> world" where
  "setOpts vbcmd opts w = apply_opts (length (heap w)) opts (w\<lparr>heap := heap w @ [vbcmd]\<rparr>)"

definition path :: "command \<Rightarrow> string" where
  "path vbcmd = program vbcmd"

text \<open>The verb \<open>%v\<close> of a slice of strings: the elements between brackets, one space apart.\<close>

fun join_sp :: "string list \<Rightarrow> string" where
  "join_sp [] = []"
| "join_sp [x] = x"
| "join_sp (x # xs) = x @ '' '' @ join_sp xs"

definition prepare :: "env \<Rightarrow> command \<Rightarrow> string list \<Rightarrow> world \<Rightarrow> Cmd \<times> world" where
  "prepare env vbcmd args w =
    (let elevate = (sudoer vbcmd \<and> sudo vbcmd \<and> GOOS env \<noteq> ''windows'');
         prog = (if elevate then ''sudo'' else program vbcmd);
         argv = (if elevate then [program vbcmd] else []) @ args;
         w1 = (if Verbose w
               then w\<lparr>logged := logged w @ [''executing: '' @ prog @ '' ['' @ join_sp argv @ '']'']\<rparr>
               else w)
     in (exec_Command prog argv, w1))"

text \<open>
  The three modes. Each has a value receiver, and its deferred
  \<open>vbcmd.setOpts(sudo(false))\<close> runs after the result is fixed. In the guard
  \<open>ee, ok := err.(*exec.Error); ok && ee == exec.ErrNotFound\<close> the left operand of
  \<open>==\<close> is the \<open>*exec.Error\<close> itself, not its field \<open>Err\<close>: the guard is
  \<open>is_exec_Error ee\<close> and the equality of \<open>ee\<close> with \<open>exec_ErrNotFound\<close>.
\<close>

definition run :: "env \<Rightarrow> command \<Rightarrow> string list \<Rightarrow> world \<Rightarrow> error option \<times> world" where
  "run env vbcmd args w =
    (let (cmd, w1) = prepare env vbcmd args w;
         cmd1 = (if Verbose w1 then cmd\<lparr>Stdout := Some os_Stdout, Stderr := Some os_Stderr\<rparr> else cmd);
         (err, bo, be, w2) = Cmd_Run env cmd1 w1;
         res = (case err of
                  Some ee \<Rightarrow>
                    if is_exec_Error ee \<and> ee = exec_ErrNotFound then Some ErrCommandNotFound
                    else Some ee
                | None \<Rightarrow> None)
     in (res, setOpts vbcmd [sudo_option False] w2))"

definition runOut :: "env \<Rightarrow> command \<Rightarrow> string list \<Rightarrow> world \<Rightarrow> (string \<times> error option) \<times> world" where
  "runOut env vbcmd args w =
    (let (cmd, w1) = prepare env vbcmd args w;
         cmd1 = (if Verbose w1 then cmd\<lparr>Stderr := Some os_Stderr\<rparr> else cmd);
         (b, err, w2) = Cmd_Output env cmd1 w1;
         err1 = (case err of
                   Some ee \<Rightarrow>
                     if is_exec_Error ee \<and> ee = exec_ErrNotFound then Some ErrCommandNotFound
                     else Some ee
                 | None \<Rightarrow> None)
     in ((b, err1), setOpts vbcmd [sudo_option False] w2))"

definition runOutErr ::
  "env \<Rightarrow> command \<Rightarrow> string list \<Rightarrow> world \<Rightarrow> (string \<times> string \<times> error option) \<times> world" where
  "runOutErr env vbcmd args w =
    (let (cmd, w1) = prepare env vbcmd args w;
         cmd1 = cmd\<lparr>Stdout := Some Buffer, Stderr := Some Buffer\<rparr>;
         (err, stdout, stderr, w2) = Cmd_Run env cmd1 w1;
         err1 = (case err of
                   Some ee \<Rightarrow>
                     if is_exec_Error ee \<and> ee = exec_ErrNotFound then Some ErrCommandNotFound
                     else Some ee
                 | None \<Rightarrow> None)
     in ((stdout, stderr, err1), setOpts vbcmd [sudo_option False] w2))"

section \<open>import.go\<close>

text \<open>
  \<open>strconv.Itoa\<close>: the decimal digits of the number, most significant first, after a
  minus sign when it is negative.
\<close>

fun digits :: "nat \<Rightarrow> string" where
  "digits n =
    (if n < 10 then [''0123456789'' ! n]
     else digits (n div 10) @ [''0123456789'' ! (n mod 10)])"

declare digits.simps [simp del]

definition Itoa :: "int \<Rightarrow> string" where
  "Itoa i = (if i < 0 then CHR ''-'' # digits (nat (- i)) else digits (nat i))"

text \<open>
  Reading a decimal string back: the value of a digit, of a run of digits, and of
  an optionally signed run of digits.
\<close>

definition digit_val :: "char \<Rightarrow> nat" where
  "digit_val c = of_char c - 48"

definition digits_val :: "string \<Rightarrow> nat" where
  "digits_val s = foldl (\<lambda>acc c. 10 * acc + digit_val c) 0 s"

definition decimal_val :: "string \<Rightarrow> int" where
  "decimal_val s =
    (case s of
       [] \<Rightarrow> 0
     | c # cs \<Rightarrow> if c = CHR ''-'' then - int (digits_val cs) else int (digits_val s))"

text \<open>
  \<open>ImportOVF\<close>. \<open>Manage()\<close> is defined in a file of the package that is not among the
  sources at hand; the command it returns is the parameter \<open>manage\<close>.
\<close>

definition ImportOVF :: "env \<Rightarrow> command \<Rightarrow> string \<Rightarrow> int \<Rightarrow> string \<Rightarrow> world \<Rightarrow> error option \<times> world" where
  "ImportOVF env manage path' vsys name w =
     run env manage [''import'', path', ''--vsys'', Itoa vsys, ''--vmname'', name] w"

section \<open>Options that keep to their argument\<close>

text \<open>
  An option keeps to its argument when it frees no cell and changes no cell but
  the one whose address it is given.
\<close>

definition writes_only_arg :: "vb_option \<Rightarrow> bool" where
  "writes_only_arg opt =
    (\<forall>cmd w. length (heap w) \<le> length (heap (opt cmd w)) \<and>
       (\<forall>a. a < length (heap w) \<and> a \<noteq> cmd \<longrightarrow> heap (opt cmd w) ! a = heap w ! a))"

section \<open>Test platforms\<close>

text \<open>
  A process table: \<open>VBoxManage\<close> prints \<open>ok\<close> and exits with status 0, \<open>failing_stub\<close>
  prints \<open>out\<close> and \<open>err\<close> on its two streams and exits with status 1, \<open>sudo\<close> succeeds
  silently, and no other name is on the search path.
\<close>

definition test_spawn :: "string \<Rightarrow> string list \<Rightarrow> writer option \<times> writer option \<Rightarrow> child" where
  "test_spawn name argv wiring =
    (if name = ''VBoxManage'' then Exited 0 ''ok'' []
     else if name = ''failing_stub'' then Exited 1 ''out'' ''err''
     else if name = ''sudo'' then Exited 0 [] []
     else NotFound)"

definition test_user :: User where
  "test_user = \<lparr>Uid = ''1000'', Gid = ''1000'', Username = ''vbox''\<rparr>"

text \<open>
  On \<open>linux\<close> the test user is in the groups with ids 1000 and 27, the latter being
  the group \<open>sudo\<close>: os/user reports group ids as decimal numbers.
\<close>

definition linux :: env where
  "linux = \<lparr>GOOS = ''linux'', spawn = test_spawn, user_Current = Inr test_user,
            GroupIds = (\<lambda>u. ([''1000'', ''27''], None)), saver = (\<lambda>s. s)\<rparr>"

definition darwin :: env where
  "darwin = \<lparr>GOOS = ''darwin'', spawn = test_spawn, user_Current = Inr test_user,
             GroupIds = (\<lambda>u. ([], Some ''user: GroupIds not implemented'')), saver = (\<lambda>s. s)\<rparr>"

definition vboxmanage :: command where
  "vboxmanage = \<lparr>program = ''VBoxManage'', sudoer = True, sudo = True\<rparr>"

text \<open>A state in which the caller keeps \<open>vboxmanage\<close> in cell 0.\<close>

definition quiet :: world where
  "quiet = \<lparr>Verbose = False, heap = [vboxmanage], logged = [], console_out = [], console_err = []\<rparr>"

text \<open>
  Three further commands: one that is never elevated, one whose program is not on
  the search path, and one whose program fails.
\<close>

definition plain :: command where
  "plain = \<lparr>program = ''VBoxManage'', sudoer = False, sudo = False\<rparr>"

definition missing :: command where
  "missing = \<lparr>program = ''doesnotexist_tool'', sudoer = False, sudo = False\<rparr>"

definition failing :: command where
  "failing = \<lparr>program = ''failing_stub'', sudoer = False, sudo = False\<rparr>"

text \<open>Two Linux platforms on which a lookup fails: of the user, and of the user's groups.\<close>

definition nobody :: env where
  "nobody = linux\<lparr>user_Current := Inl ''user: Current not implemented''\<rparr>"

definition groupless :: env where
  "groupless = linux\<lparr>GroupIds := (\<lambda>u. ([], Some ''user: list groups: invalid gid''))\<rparr>"

section \<open>What \<open>prepare\<close> builds\<close>

lemma fst_prepare:
  "fst (prepare env vbcmd args w) =
     (if sudoer vbcmd \<and> sudo vbcmd \<and> GOOS env \<noteq> ''windows''
      then exec_Command ''sudo'' (program vbcmd # args)
      else exec_Command (program vbcmd) args)"
  by (simp add: prepare_def Let_def)

lemma Verbose_prepare: "Verbose (snd (prepare env vbcmd args w)) = Verbose w"
  by (simp add: prepare_def Let_def)

lemma heap_prepare: "heap (snd (prepare env vbcmd args w)) = heap w"
  by (simp add: prepare_def Let_def)

lemma fst_prepare_Verbose:
  "fst (prepare env vbcmd args (w\<lparr>Verbose := b\<rparr>)) = fst (prepare env vbcmd args w)"
  by (simp add: prepare_def Let_def)

lemma Stdout_prepare: "Stdout (fst (prepare env vbcmd args w)) = None"
  by (simp add: fst_prepare exec_Command_def)

lemma Stderr_prepare: "Stderr (fst (prepare env vbcmd args w)) = None"
  by (simp add: fst_prepare exec_Command_def)

text \<open>
  C4. For every command and argument list, \<open>prepare\<close> forms the invocation as
  follows: when the user may elevate (\<open>sudoer\<close>), elevation is requested (\<open>sudo\<close>) and
  the platform is not Windows, the executed vector is \<open>sudo\<close>, the original program
  name, then the caller's arguments; otherwise it is the original program name,
  then the caller's arguments. In both cases the caller's arguments stand
  unchanged, in their order, after the prefix.
\<close>

theorem prepare_vector:
  "Args (fst (prepare env vbcmd args w)) =
     (if sudoer vbcmd \<and> sudo vbcmd \<and> GOOS env \<noteq> ''windows''
      then [''sudo'', program vbcmd] else [program vbcmd]) @ args"
  by (simp add: fst_prepare exec_Command_def)

text \<open>
  C5. For every argument list, preparing with elevation not requested gives the
  same result (program, argument vector, streams and log line) as preparing with
  elevation requested on a command whose user may not elevate.
\<close>

theorem prepare_unrequested_eq_unpermitted:
  "prepare env (vbcmd\<lparr>sudo := False\<rparr>) args w =
   prepare env (vbcmd\<lparr>sudoer := False, sudo := True\<rparr>) args w"
  by (simp add: prepare_def)

section \<open>The results of the three modes\<close>

text \<open>
  The test \<open>ok && ee == exec.ErrNotFound\<close> never holds: \<open>ee\<close> is a \<open>*exec.Error\<close>, and
  \<open>exec.ErrNotFound\<close> is not one.
\<close>

lemma never_ErrNotFound_itself: "\<not> (is_exec_Error ee \<and> ee = exec_ErrNotFound)"
  by (cases ee) simp_all

lemma classify_id:
  "(case err of
      None \<Rightarrow> None
    | Some ee \<Rightarrow>
        if is_exec_Error ee \<and> ee = exec_ErrNotFound then Some ErrCommandNotFound else Some ee)
   = err"
  by (cases err) (simp_all add: never_ErrNotFound_itself)

lemma fst_run:
  "fst (run env vbcmd args w) =
     fst (Cmd_Run env
            (if Verbose w
             then (fst (prepare env vbcmd args w))\<lparr>Stdout := Some os_Stdout, Stderr := Some os_Stderr\<rparr>
             else fst (prepare env vbcmd args w))
            (snd (prepare env vbcmd args w)))"
  by (simp add: run_def Let_def split_beta Verbose_prepare classify_id)

lemma fst_runOut:
  "fst (runOut env vbcmd args w) =
     (fst (Cmd_Output env
            (if Verbose w then (fst (prepare env vbcmd args w))\<lparr>Stderr := Some os_Stderr\<rparr>
             else fst (prepare env vbcmd args w))
            (snd (prepare env vbcmd args w))),
      fst (snd (Cmd_Output env
            (if Verbose w then (fst (prepare env vbcmd args w))\<lparr>Stderr := Some os_Stderr\<rparr>
             else fst (prepare env vbcmd args w))
            (snd (prepare env vbcmd args w)))))"
  by (simp add: runOut_def Let_def split_beta Verbose_prepare classify_id)

lemma fst_runOutErr:
  "fst (runOutErr env vbcmd args w) =
     (case Cmd_Run env ((fst (prepare env vbcmd args w))\<lparr>Stdout := Some Buffer, Stderr := Some Buffer\<rparr>)
             (snd (prepare env vbcmd args w)) of
        (err, stdout, stderr, w2) \<Rightarrow> (stdout, stderr, err))"
  by (simp add: runOutErr_def Let_def split_beta classify_id)

text \<open>
  C1, at a program name that is not on the search path: each of the three modes
  returns the \<open>*exec.Error\<close> of the failed search as it is, which is not
  \<open>ErrCommandNotFound\<close>.
\<close>

theorem not_found_stays_opaque:
  "fst (run linux missing [''list'', ''vms''] quiet) =
     Some (exec_Error ''doesnotexist_tool'' exec_ErrNotFound) \<and>
   fst (runOut linux missing [''list'', ''vms''] quiet) =
     ([], Some (exec_Error ''doesnotexist_tool'' exec_ErrNotFound)) \<and>
   fst (runOutErr linux missing [''list'', ''vms''] quiet) =
     ([], [], Some (exec_Error ''doesnotexist_tool'' exec_ErrNotFound)) \<and>
   exec_Error ''doesnotexist_tool'' exec_ErrNotFound \<noteq> ErrCommandNotFound"
  by (simp add: fst_run fst_runOut fst_runOutErr fst_prepare Cmd_Output_def Cmd_Run_def
        missing_def quiet_def linux_def test_spawn_def exec_Command_def Let_def split_beta
        prepare_def)

text \<open>
  C6. \<open>runOutErr\<close> returns the text of both buffers in every case: nothing and the
  error of the start when the process does not start; otherwise all that the
  process wrote to its standard output and all that it wrote to its standard
  error, with no error for status 0 and an exit error for any other status. In
  particular, a process that writes to standard error and exits with a non-zero
  status yields that non-empty standard-error text and an error.
\<close>

theorem runOutErr_returns_both:
  "fst (runOutErr env vbcmd args w) =
     (case spawn env (Path (fst (prepare env vbcmd args w))) (Args (fst (prepare env vbcmd args w)))
             (Some Buffer, Some Buffer) of
        NotFound \<Rightarrow> ([], [], Some (exec_Error (Path (fst (prepare env vbcmd args w))) exec_ErrNotFound))
      | StartFails msg \<Rightarrow> ([], [], Some (os_error msg))
      | Exited status out err \<Rightarrow>
          (out, err, if status = 0 then None else Some (exec_ExitError status []))) \<and>
   (spawn env (Path (fst (prepare env vbcmd args w))) (Args (fst (prepare env vbcmd args w)))
      (Some Buffer, Some Buffer) = Exited status out err \<and> status \<noteq> 0 \<and> err \<noteq> [] \<longrightarrow>
    fst (snd (fst (runOutErr env vbcmd args w))) = err \<and>
    fst (snd (fst (runOutErr env vbcmd args w))) \<noteq> [] \<and>
    snd (snd (fst (runOutErr env vbcmd args w))) \<noteq> None)"
  by (simp add: fst_runOutErr Cmd_Run_def split_beta split: child.splits)

theorem runOutErr_returns_both_witness:
  "fst (runOutErr linux failing [''list'', ''vms''] quiet) =
     (''out'', ''err'', Some (exec_ExitError 1 [])) \<and>
   fst (snd (fst (runOutErr linux failing [''list'', ''vms''] quiet))) \<noteq> [] \<and>
   snd (snd (fst (runOutErr linux failing [''list'', ''vms''] quiet))) \<noteq> None"
proof -
  have "spawn linux (Path (fst (prepare linux failing [''list'', ''vms''] quiet)))
          (Args (fst (prepare linux failing [''list'', ''vms''] quiet))) (Some Buffer, Some Buffer)
        = Exited 1 ''out'' ''err''"
    by (simp add: fst_prepare failing_def linux_def test_spawn_def exec_Command_def)
  with runOutErr_returns_both [of linux failing "[''list'', ''vms'']" quiet 1 "''out''" "''err''"]
  show ?thesis by simp
qed

text \<open>
  C8. When the process that an invocation starts exits with status 0 after writing
  the same output whatever its two streams are connected to, each of \<open>run\<close>,
  \<open>runOut\<close> and \<open>runOutErr\<close> returns the same value with \<open>Verbose\<close> set as with
  \<open>Verbose\<close> clear.
\<close>

theorem verbose_keeps_result:
  assumes "\<forall>wiring. spawn env (Path (fst (prepare env vbcmd args w)))
             (Args (fst (prepare env vbcmd args w))) wiring = Exited 0 out err"
  shows "fst (run env vbcmd args (w\<lparr>Verbose := True\<rparr>)) =
           fst (run env vbcmd args (w\<lparr>Verbose := False\<rparr>)) \<and>
         fst (runOut env vbcmd args (w\<lparr>Verbose := True\<rparr>)) =
           fst (runOut env vbcmd args (w\<lparr>Verbose := False\<rparr>)) \<and>
         fst (runOutErr env vbcmd args (w\<lparr>Verbose := True\<rparr>)) =
           fst (runOutErr env vbcmd args (w\<lparr>Verbose := False\<rparr>))"
proof -
  let ?c = "fst (prepare env vbcmd args w)"
  have sp: "\<And>wiring. spawn env (Path ?c) (Args ?c) wiring = Exited 0 out err"
    using assms by blast
  have r: "fst (run env vbcmd args (w\<lparr>Verbose := b\<rparr>)) = None" for b
    by (simp add: fst_run fst_prepare_Verbose Cmd_Run_def sp split_beta)
  have o: "fst (runOut env vbcmd args (w\<lparr>Verbose := b\<rparr>)) = (out, None)" for b
    by (simp add: fst_runOut fst_prepare_Verbose Cmd_Output_def Cmd_Run_def sp Let_def split_beta
          Stdout_prepare Stderr_prepare)
  have e: "fst (runOutErr env vbcmd args (w\<lparr>Verbose := b\<rparr>)) = (out, err, None)" for b
    by (simp add: fst_runOutErr fst_prepare_Verbose Cmd_Run_def sp split_beta)
  show ?thesis by (simp add: r o e)
qed

theorem verbose_keeps_result_witness:
  "fst (run linux plain [''list'', ''vms''] (quiet\<lparr>Verbose := True\<rparr>)) =
     fst (run linux plain [''list'', ''vms''] (quiet\<lparr>Verbose := False\<rparr>)) \<and>
   fst (runOut linux plain [''list'', ''vms''] (quiet\<lparr>Verbose := True\<rparr>)) =
     fst (runOut linux plain [''list'', ''vms''] (quiet\<lparr>Verbose := False\<rparr>)) \<and>
   fst (runOutErr linux plain [''list'', ''vms''] (quiet\<lparr>Verbose := True\<rparr>)) =
     fst (runOutErr linux plain [''list'', ''vms''] (quiet\<lparr>Verbose := False\<rparr>)) \<and>
   fst (runOut linux plain [''list'', ''vms''] (quiet\<lparr>Verbose := True\<rparr>)) = (''ok'', None)"
proof -
  have sp: "\<forall>wiring. spawn linux (Path (fst (prepare linux plain [''list'', ''vms''] quiet)))
          (Args (fst (prepare linux plain [''list'', ''vms''] quiet))) wiring = Exited 0 ''ok'' []"
    by (simp add: fst_prepare plain_def linux_def test_spawn_def exec_Command_def)
  have "fst (runOut linux plain [''list'', ''vms''] (quiet\<lparr>Verbose := True\<rparr>)) = (''ok'', None)"
    by (simp add: fst_runOut fst_prepare Cmd_Output_def Cmd_Run_def plain_def quiet_def linux_def
          test_spawn_def exec_Command_def Let_def split_beta)
  with verbose_keeps_result [OF sp] show ?thesis by simp
qed

text \<open>
  The result does depend on \<open>Verbose\<close> when the process fails: with \<open>Verbose\<close>
  clear, \<open>Output\<close> stores the captured standard error in the exit error; with
  \<open>Verbose\<close> set, that text has gone to the console instead.
\<close>

lemma verbose_changes_failure_result:
  "fst (runOut linux failing [''list'', ''vms''] (quiet\<lparr>Verbose := False\<rparr>)) =
     (''out'', Some (exec_ExitError 1 ''err'')) \<and>
   fst (runOut linux failing [''list'', ''vms''] (quiet\<lparr>Verbose := True\<rparr>)) =
     (''out'', Some (exec_ExitError 1 []))"
  by (simp add: fst_runOut fst_prepare Cmd_Output_def Cmd_Run_def failing_def quiet_def linux_def
        test_spawn_def exec_Command_def Let_def split_beta)

section \<open>The errors that can come back\<close>

lemma Cmd_Run_error:
  "fst (Cmd_Run env c w) = Some e \<Longrightarrow>
     e = exec_Error (Path c) exec_ErrNotFound \<or> (\<exists>msg. e = os_error msg) \<or>
     (\<exists>status. e = exec_ExitError status [])"
  by (auto simp add: Cmd_Run_def split_beta split: child.splits if_splits)

lemma Cmd_Output_error:
  "fst (snd (Cmd_Output env c w)) = Some e \<Longrightarrow>
     (\<exists>name. e = exec_Error name exec_ErrNotFound) \<or> (\<exists>msg. e = os_error msg) \<or>
     (\<exists>status s. e = exec_ExitError status s)"
  by (auto simp add: Cmd_Output_def Cmd_Run_def Let_def split_beta split: child.splits if_splits)

lemma run_error:
  "fst (run env vbcmd args w) = Some e \<Longrightarrow>
     (\<exists>name. e = exec_Error name exec_ErrNotFound) \<or> (\<exists>msg. e = os_error msg) \<or>
     (\<exists>status s. e = exec_ExitError status s)"
  unfolding fst_run by (drule Cmd_Run_error) blast

lemma runOut_error:
  "snd (fst (runOut env vbcmd args w)) = Some e \<Longrightarrow>
     (\<exists>name. e = exec_Error name exec_ErrNotFound) \<or> (\<exists>msg. e = os_error msg) \<or>
     (\<exists>status s. e = exec_ExitError status s)"
  unfolding fst_runOut by (simp only: snd_conv) (rule Cmd_Output_error)

lemma runOutErr_error:
  "snd (snd (fst (runOutErr env vbcmd args w))) = Some e \<Longrightarrow>
     (\<exists>name. e = exec_Error name exec_ErrNotFound) \<or> (\<exists>msg. e = os_error msg) \<or>
     (\<exists>status s. e = exec_ExitError status s)"
  unfolding fst_runOutErr by (simp add: split_beta) (drule Cmd_Run_error, blast)

lemma isSudoer_error: "snd (isSudoer env) = Some e \<Longrightarrow> \<exists>msg. e = os_error msg"
  by (auto simp add: isSudoer_def split_beta split: sum.splits if_splits option.splits)

text \<open>
  C10. None of \<open>run\<close>, \<open>runOut\<close>, \<open>runOutErr\<close>, \<open>isSudoer\<close> and \<open>ImportOVF\<close> returns
  \<open>ErrMachineExist\<close> or \<open>ErrMachineNotExist\<close>, whatever the platform, the command,
  the arguments and the state.
\<close>

theorem machine_sentinels_never_returned:
  "fst (run env vbcmd args w) \<noteq> Some ErrMachineExist \<and>
   fst (run env vbcmd args w) \<noteq> Some ErrMachineNotExist \<and>
   snd (fst (runOut env vbcmd args w)) \<noteq> Some ErrMachineExist \<and>
   snd (fst (runOut env vbcmd args w)) \<noteq> Some ErrMachineNotExist \<and>
   snd (snd (fst (runOutErr env vbcmd args w))) \<noteq> Some ErrMachineExist \<and>
   snd (snd (fst (runOutErr env vbcmd args w))) \<noteq> Some ErrMachineNotExist \<and>
   snd (isSudoer env) \<noteq> Some ErrMachineExist \<and>
   snd (isSudoer env) \<noteq> Some ErrMachineNotExist \<and>
   fst (ImportOVF env vbcmd path' vsys name w) \<noteq> Some ErrMachineExist \<and>
   fst (ImportOVF env vbcmd path' vsys name w) \<noteq> Some ErrMachineNotExist"
proof -
  have r: "fst (run env vbcmd a w) \<noteq> Some ErrMachineExist \<and>
           fst (run env vbcmd a w) \<noteq> Some ErrMachineNotExist" for a
    using run_error [of env vbcmd a w] by auto
  have o: "snd (fst (runOut env vbcmd args w)) \<noteq> Some ErrMachineExist \<and>
           snd (fst (runOut env vbcmd args w)) \<noteq> Some ErrMachineNotExist"
    using runOut_error [of env vbcmd args w] by auto
  have e: "snd (snd (fst (runOutErr env vbcmd args w))) \<noteq> Some ErrMachineExist \<and>
           snd (snd (fst (runOutErr env vbcmd args w))) \<noteq> Some ErrMachineNotExist"
    using runOutErr_error [of env vbcmd args w] by auto
  have s: "snd (isSudoer env) \<noteq> Some ErrMachineExist \<and>
           snd (isSudoer env) \<noteq> Some ErrMachineNotExist"
    using isSudoer_error [of env] by auto
  show ?thesis using r o e s by (simp add: ImportOVF_def)
qed

text \<open>
  The branch that would return \<open>ErrCommandNotFound\<close> is never taken: no mode
  returns that value, whatever the platform does.
\<close>

theorem ErrCommandNotFound_never_returned:
  "fst (run env vbcmd args w) \<noteq> Some ErrCommandNotFound \<and>
   snd (fst (runOut env vbcmd args w)) \<noteq> Some ErrCommandNotFound \<and>
   snd (snd (fst (runOutErr env vbcmd args w))) \<noteq> Some ErrCommandNotFound"
  using run_error [of env vbcmd args w] runOut_error [of env vbcmd args w]
    runOutErr_error [of env vbcmd args w]
  by auto

section \<open>The caller's command\<close>

lemma heap_deliver: "heap (snd (deliver wr s w)) = heap w"
  by (cases "(wr, s, w)" rule: deliver.cases) simp_all

lemma heap_Cmd_Run: "heap (snd (snd (snd (Cmd_Run env c w)))) = heap w"
  by (simp add: Cmd_Run_def split_beta heap_deliver split: child.splits)

lemma heap_Cmd_Output: "heap (snd (snd (Cmd_Output env c w))) = heap w"
  by (simp add: Cmd_Output_def Let_def split_beta heap_Cmd_Run)

lemma sudo_option_writes_only_arg: "writes_only_arg (sudo_option b)"
  by (simp add: writes_only_arg_def sudo_option_def)

lemma apply_opts_frame:
  assumes "\<forall>opt \<in> set opts. writes_only_arg opt" and "a < length (heap w)" and "a \<noteq> cmd"
  shows "heap (apply_opts cmd opts w) ! a = heap w ! a \<and> a < length (heap (apply_opts cmd opts w))"
  using assms
proof (induction opts arbitrary: w)
  case Nil
  then show ?case by simp
next
  case (Cons opt opts)
  from Cons.prems have loc: "writes_only_arg opt" by simp
  from loc Cons.prems(2) have len: "a < length (heap (opt cmd w))"
    unfolding writes_only_arg_def by (meson less_le_trans)
  from loc Cons.prems(2,3) have same: "heap (opt cmd w) ! a = heap w ! a"
    unfolding writes_only_arg_def by blast
  from Cons.prems(1) have rest: "\<forall>opt \<in> set opts. writes_only_arg opt" by simp
  from Cons.IH [OF rest len Cons.prems(3)] same show ?case by simp
qed

lemma setOpts_cell:
  assumes "\<forall>opt \<in> set opts. writes_only_arg opt" and "a < length (heap w)"
  shows "heap (setOpts vbcmd opts w) ! a = heap w ! a"
proof -
  let ?w1 = "w\<lparr>heap := heap w @ [vbcmd]\<rparr>"
  have "a < length (heap ?w1)" using assms(2) by simp
  moreover have "a \<noteq> length (heap w)" using assms(2) by simp
  ultimately have "heap (apply_opts (length (heap w)) opts ?w1) ! a = heap ?w1 ! a"
    using apply_opts_frame [OF assms(1)] by blast
  then show ?thesis using assms(2) by (simp add: setOpts_def nth_append)
qed

lemma reset_cell:
  "a < length (heap w) \<Longrightarrow> heap (setOpts vbcmd [sudo_option False] w) ! a = heap w ! a"
  by (rule setOpts_cell) (simp_all add: sudo_option_writes_only_arg)

text \<open>
  C3. For every command that the caller keeps in a cell and every sequence of
  options that keep to their argument (as every \<open>sudo b\<close> does), the cell holds the
  same command, field by field, after \<open>setOpts\<close> as before it: the options have
  changed a copy.
\<close>

theorem setOpts_keeps_callers_command:
  assumes "\<forall>opt \<in> set opts. writes_only_arg opt" and "a < length (heap w)"
  shows "heap (setOpts (heap w ! a) opts w) ! a = heap w ! a"
  using assms by (rule setOpts_cell)

theorem setOpts_keeps_callers_command_witness:
  "heap (setOpts (heap quiet ! 0) [sudo_option False, sudo_option True, sudo_option False] quiet) ! 0
     = \<lparr>program = ''VBoxManage'', sudoer = True, sudo = True\<rparr>"
proof -
  have "\<forall>opt \<in> set [sudo_option False, sudo_option True, sudo_option False]. writes_only_arg opt"
    by (simp add: sudo_option_writes_only_arg)
  moreover have "0 < length (heap quiet)" by (simp add: quiet_def)
  ultimately show ?thesis
    using setOpts_keeps_callers_command
      [of "[sudo_option False, sudo_option True, sudo_option False]" 0 quiet]
    by (simp add: quiet_def vboxmanage_def)
qed

text \<open>
  Every mode leaves every cell that existed before the call as it was: the deferred
  reset of the flag lands in a cell of its own.
\<close>

theorem modes_keep_callers_command:
  assumes "a < length (heap w)"
  shows "heap (snd (run env vbcmd args w)) ! a = heap w ! a \<and>
         heap (snd (runOut env vbcmd args w)) ! a = heap w ! a \<and>
         heap (snd (runOutErr env vbcmd args w)) ! a = heap w ! a"
proof -
  have r: "heap (setOpts vbcmd [sudo_option False] w') ! a = heap w ! a" if "heap w' = heap w" for w'
    using assms that by (simp add: reset_cell)
  have "heap (snd (run env vbcmd args w)) ! a = heap w ! a"
    by (simp add: run_def Let_def split_beta r heap_Cmd_Run heap_prepare)
  moreover have "heap (snd (runOut env vbcmd args w)) ! a = heap w ! a"
    by (simp add: runOut_def Let_def split_beta r heap_Cmd_Output heap_prepare)
  moreover have "heap (snd (runOutErr env vbcmd args w)) ! a = heap w ! a"
    by (simp add: runOutErr_def Let_def split_beta r heap_Cmd_Run heap_prepare)
  ultimately show ?thesis by simp
qed

theorem modes_keep_callers_command_witness:
  "heap (snd (run linux (heap quiet ! 0) [''list'', ''vms''] quiet)) ! 0 = vboxmanage"
proof -
  have "0 < length (heap quiet)" by (simp add: quiet_def)
  from modes_keep_callers_command [OF this, of linux "heap quiet ! 0" "[''list'', ''vms'']"]
  show ?thesis by (simp add: quiet_def)
qed

text \<open>
  C2, at a command whose flag is set before the call: after each of the three
  modes has returned without error, the flag of the caller's command is still set.
\<close>

theorem sudo_flag_survives_the_call:
  "sudo (heap quiet ! 0) \<and>
   fst (run linux (heap quiet ! 0) [''list'', ''vms''] quiet) = None \<and>
   sudo (heap (snd (run linux (heap quiet ! 0) [''list'', ''vms''] quiet)) ! 0) \<and>
   sudo (heap (snd (runOut linux (heap quiet ! 0) [''list'', ''vms''] quiet)) ! 0) \<and>
   sudo (heap (snd (runOutErr linux (heap quiet ! 0) [''list'', ''vms''] quiet)) ! 0)"
  by (simp add: run_def runOut_def runOutErr_def prepare_def quiet_def vboxmanage_def linux_def
        Cmd_Run_def Cmd_Output_def exec_Command_def test_spawn_def setOpts_def sudo_option_def
        Let_def)

section \<open>Permission detection\<close>

lemma has_sudo_iff: "has_sudo groupIDs \<longleftrightarrow> ''sudo'' \<in> set groupIDs"
  by (induction groupIDs) auto

text \<open>
  C7 as stated fails where the platform is not Linux: the lookup of the groups
  fails, and \<open>isSudoer\<close> returns \<open>false\<close> without an error.
\<close>

theorem isSudoer_swallows_group_error:
  "user_Current darwin = Inr test_user \<and>
   snd (GroupIds darwin test_user) = Some ''user: GroupIds not implemented'' \<and>
   isSudoer darwin = (False, None)"
  by (simp add: darwin_def isSudoer_def)

text \<open>
  C7, amended. \<open>isSudoer\<close> returns the error when the lookup of the current user
  fails, and on Linux when the lookup of the user's groups fails. In every other
  case it returns a boolean without error, and on every platform other than Linux
  that boolean is false, whether or not the lookup of the groups failed there.
\<close>

theorem isSudoer_result:
  "(user_Current env = Inl msg \<longrightarrow> isSudoer env = (False, Some (os_error msg))) \<and>
   (user_Current env = Inr me \<and> GOOS env = ''linux'' \<and> snd (GroupIds env me) = Some msg \<longrightarrow>
      isSudoer env = (False, Some (os_error msg))) \<and>
   (user_Current env = Inr me \<and> GOOS env = ''linux'' \<and> snd (GroupIds env me) = None \<longrightarrow>
      snd (isSudoer env) = None) \<and>
   (user_Current env = Inr me \<and> GOOS env \<noteq> ''linux'' \<longrightarrow> isSudoer env = (False, None))"
  by (simp add: isSudoer_def split_beta)

theorem isSudoer_result_witness:
  "isSudoer nobody = (False, Some (os_error ''user: Current not implemented'')) \<and>
   isSudoer groupless = (False, Some (os_error ''user: list groups: invalid gid'')) \<and>
   snd (isSudoer linux) = None \<and>
   isSudoer darwin = (False, None)"
proof -
  have 1: "user_Current nobody = Inl ''user: Current not implemented''"
    by (simp add: nobody_def)
  have 2: "user_Current groupless = Inr test_user \<and> GOOS groupless = ''linux'' \<and>
           snd (GroupIds groupless test_user) = Some ''user: list groups: invalid gid''"
    by (simp add: groupless_def linux_def)
  have 3: "user_Current linux = Inr test_user \<and> GOOS linux = ''linux'' \<and>
           snd (GroupIds linux test_user) = None"
    by (simp add: linux_def)
  have 4: "user_Current darwin = Inr test_user \<and> GOOS darwin \<noteq> ''linux''"
    by (simp add: darwin_def)
  show ?thesis
    using isSudoer_result [of nobody "''user: Current not implemented''" test_user]
      isSudoer_result [of groupless "''user: list groups: invalid gid''" test_user]
      isSudoer_result [of linux "''x''" test_user]
      isSudoer_result [of darwin "''x''" test_user]
      1 2 3 4
    by simp
qed

text \<open>
  The boolean on Linux. The loop compares each group id with the name \<open>sudo\<close>; where
  the group ids are decimal numbers, as os/user reports them, none is equal to
  it, and the result is false whatever groups the user is in.
\<close>

lemma isSudoer_false_on_decimal_gids:
  assumes "user_Current env = Inr me"
    and "\<forall>g \<in> set (fst (GroupIds env me)). set g \<subseteq> set ''0123456789''"
  shows "fst (isSudoer env) = False"
proof -
  have "''sudo'' \<notin> set (fst (GroupIds env me))"
  proof
    assume "''sudo'' \<in> set (fst (GroupIds env me))"
    with assms(2) have "set ''sudo'' \<subseteq> set ''0123456789''" by blast
    then show False by simp
  qed
  then have "\<not> has_sudo (fst (GroupIds env me))" by (simp add: has_sudo_iff)
  with assms(1) show ?thesis
    by (simp add: isSudoer_def split_beta split: option.splits)
qed

lemma member_of_sudo_not_detected: "isSudoer linux = (False, None)"
  by (simp add: isSudoer_def linux_def)

section \<open>Importing an appliance\<close>

lemma below_ten: "d < (10::nat) \<Longrightarrow> d \<in> {0, 1, 2, 3, 4, 5, 6, 7, 8, 9}"
  by auto

lemma digit_val_digit: "d < 10 \<Longrightarrow> digit_val (''0123456789'' ! d) = d"
  by (drule below_ten) (auto simp add: digit_val_def)

lemma digit_not_minus: "d < 10 \<Longrightarrow> ''0123456789'' ! d \<noteq> CHR ''-''"
  by (drule below_ten) auto

lemma digits_val_snoc: "digits_val (s @ [c]) = 10 * digits_val s + digit_val c"
  by (simp add: digits_val_def)

lemma digits_val_digits: "digits_val (digits n) = n"
proof (induction n rule: digits.induct)
  case (1 n)
  show ?case
  proof (cases "n < 10")
    case True
    then show ?thesis
      by (subst digits.simps) (simp add: digits_val_def digit_val_digit)
  next
    case False
    with "1.IH" have "digits_val (digits (n div 10)) = n div 10" by simp
    with False show ?thesis
      by (subst digits.simps) (simp add: digits_val_snoc digit_val_digit)
  qed
qed

lemma digits_head: "\<exists>c cs. digits n = c # cs \<and> c \<noteq> CHR ''-''"
proof (induction n rule: digits.induct)
  case (1 n)
  show ?case
  proof (cases "n < 10")
    case True
    then show ?thesis
      by (subst digits.simps) (simp add: digit_not_minus)
  next
    case False
    with "1.IH" obtain c cs where "digits (n div 10) = c # cs" "c \<noteq> CHR ''-''" by auto
    with False show ?thesis
      by (subst digits.simps) simp
  qed
qed

lemma decimal_val_Itoa: "decimal_val (Itoa i) = i"
proof (cases "i < 0")
  case True
  then show ?thesis by (simp add: Itoa_def decimal_val_def digits_val_digits)
next
  case False
  obtain c cs where d: "digits (nat i) = c # cs" "c \<noteq> CHR ''-''"
    using digits_head by blast
  have "digits_val (c # cs) = nat i" using digits_val_digits [of "nat i"] d(1) by simp
  with False d show ?thesis by (simp add: Itoa_def decimal_val_def)
qed

text \<open>
  C9. \<open>ImportOVF path vsys name\<close> is \<open>run\<close> on the command of \<open>Manage()\<close> with the
  argument vector \<open>import\<close>, the path, \<open>--vsys\<close>, the decimal string of \<open>vsys\<close>,
  \<open>--vmname\<close>, the name: it returns what \<open>run\<close> returns, an error or none, and no
  output; and the fourth argument read as a decimal number is \<open>vsys\<close>.
\<close>

theorem ImportOVF_vector:
  "ImportOVF env manage path' vsys name w =
     run env manage [''import'', path', ''--vsys'', Itoa vsys, ''--vmname'', name] w \<and>
   decimal_val (Itoa vsys) = vsys"
  by (simp add: ImportOVF_def decimal_val_Itoa)

end
